theory Spec2Isabelle
  imports Complex_Main
begin

section \<open>Tower defense: entities, enemies, pools, towers\<close>

text \<open>
  A shallow embedding of the simulation core of the tower-defense game. JavaScript numbers
  are modelled as \<^typ>\<open>real\<close> (rounding of IEEE doubles, \<open>NaN\<close> and infinities are not
  modelled), a \<open>Vector2\<close> as a pair, a JS \<open>Map\<close> keyed by strings as a HOL map, and every
  method as a function from the old object to the new one. \<open>performance.now()\<close> is a
  parameter \<open>now\<close>. Calls into the particle system, the sound manager and the canvas
  change no field that the simulation reads and are left out.
\<close>

subsection \<open>Vector2 and distance (utils)\<close>

type_synonym Vector2 = "real \<times> real"

text \<open>\<open>distance(x1, y1, x2, y2) = Math.sqrt((x2 - x1) ** 2 + (y2 - y1) ** 2)\<close>\<close>

definition distance :: "real \<Rightarrow> real \<Rightarrow> real \<Rightarrow> real \<Rightarrow> real" where
  "distance x1 y1 x2 y2 = sqrt ((x2 - x1)\<^sup>2 + (y2 - y1)\<^sup>2)"

definition distanceTo :: "Vector2 \<Rightarrow> Vector2 \<Rightarrow> real" where
  "distanceTo p q = distance (fst p) (snd p) (fst q) (snd q)"

definition magnitude :: "Vector2 \<Rightarrow> real" where
  "magnitude v = sqrt (fst v * fst v + snd v * snd v)"

definition normalize :: "Vector2 \<Rightarrow> Vector2" where
  "normalize v = (let mag = magnitude v in if mag > 0 then (fst v / mag, snd v / mag) else v)"

definition multiply :: "Vector2 \<Rightarrow> real \<Rightarrow> Vector2" where
  "multiply v s = (fst v * s, snd v * s)"

definition add :: "Vector2 \<Rightarrow> Vector2 \<Rightarrow> Vector2" where
  "add p v = (fst p + fst v, snd p + snd v)"

text \<open>\<open>Math.round\<close> rounds half-way cases up.\<close>

definition Math_round :: "real \<Rightarrow> int" where
  "Math_round v = \<lfloor>v + 1 / 2\<rfloor>"

subsection \<open>The game's resources\<close>

text \<open>
  A tower refers to its target enemy by reference; enemy objects live in a store
  (see below) and a reference is the object's address. The projectiles that an archer
  or a cannon keeps are not part of the model.

  \<open>Game\<close> is modelled by the fields that the simulation core reads or writes, with the
  tower manager's \<open>towers\<close> array among them; a map cell is its \<open>canBuildTower\<close> flag.
  \<open>window.game\<close> is passed explicitly: the model is of a page where the game object exists.
\<close>

record Tower =
  tposition :: Vector2
  towerType :: string
  stats_damage :: real
  stats_range :: real
  stats_attackSpeed :: real
  stats_cost :: real
  stats_upgradeCost :: real
  stats_sellValue :: real
  level :: nat
  maxLevel :: nat
  target :: "nat option"
  lastAttackTime :: real
  attackCooldown :: real
  canAttack :: bool

record ArcherTower = Tower +
  piercingShots :: nat
  multiShot :: nat

record CannonTower = Tower +
  explosionRadius :: real
  stunChance :: real
  burnDamage :: real

record MagicTower = Tower +
  chainCount :: nat
  chainRange :: real
  slowAmount :: real
  slowedEnemies :: "nat set"

datatype TowerObj = Archer ArcherTower | Cannon CannonTower | Magic MagicTower

record Game =
  gold :: real
  score :: real
  lives :: real
  selectedTowerType :: "string option"
  isPlacingTower :: bool
  gridSize :: real
  mapWidth :: real
  mapHeight :: real
  game_map :: "bool list list"
  game_path :: "Vector2 list"
  towers :: "TowerObj list"

definition addGold :: "real \<Rightarrow> Game \<Rightarrow> Game" where
  "addGold amount g = g\<lparr>gold := gold g + amount\<rparr>"

definition addScore :: "real \<Rightarrow> Game \<Rightarrow> Game" where
  "addScore amount g = g\<lparr>score := score g + amount\<rparr>"

text \<open>\<open>Game.takeDamage\<close>: an enemy reached the end of the path.\<close>

definition Game_takeDamage :: "real \<Rightarrow> Game \<Rightarrow> Game" where
  "Game_takeDamage dmg g = g\<lparr>lives := max 0 (lives g - dmg)\<rparr>"

subsection \<open>LivingEntity and Enemy\<close>

record StatusEffect =
  duration :: real
  strength :: real
  startTime :: real

record Enemy =
  position :: Vector2
  velocity :: Vector2
  isAlive :: bool
  isVisible :: bool
  maxHealth :: real
  health :: real
  isDead :: bool
  invulnerable :: bool
  invulnerabilityTime :: real
  damageFlashTime :: real
  lastDamageTime :: real
  lastDamageAmount :: int
  statusEffects :: "string \<rightharpoonup> StatusEffect"
  speed :: real
  goldReward :: real
  scoreReward :: real
  armor :: real
  magicResist :: real
  path :: "Vector2 list"
  currentWaypoint :: nat
  baseSpeed :: real
  currentSpeed :: real
  damage :: real
  statusResistance :: "string \<rightharpoonup> real"
  enemyType :: string

text \<open>
  The constructor's \<open>stats.f || d\<close>: a missing or zero number takes the default.
\<close>

definition or_default :: "real \<Rightarrow> real \<Rightarrow> real" where
  "or_default v d = (if v = 0 then d else v)"

record EnemyStats =
  st_health :: real
  st_speed :: real
  st_goldReward :: real
  st_scoreReward :: real
  st_armor :: real
  st_magicResist :: real
  st_damage :: real

text \<open>
  \<open>new Enemy(x, y, stats)\<close>. The object literal spreads \<open>...stats\<close> after the defaults, so a
  field that \<open>stats\<close> holds keeps its own value, zero included; the three concrete classes
  give every field. \<open>maxHealth\<close> and \<open>damage\<close> go through \<open>||\<close>.
\<close>

definition Enemy_new :: "real \<Rightarrow> real \<Rightarrow> EnemyStats \<Rightarrow> Enemy" where
  "Enemy_new px py stats =
     \<lparr>position = (px, py), velocity = (0, 0), isAlive = True, isVisible = True,
      maxHealth = or_default (st_health stats) 50,
      health = or_default (st_health stats) 50,
      isDead = False, invulnerable = False, invulnerabilityTime = 0,
      damageFlashTime = 0, lastDamageTime = 0, lastDamageAmount = 0,
      statusEffects = Map.empty,
      speed = st_speed stats, goldReward = st_goldReward stats,
      scoreReward = st_scoreReward stats, armor = st_armor stats,
      magicResist = st_magicResist stats,
      path = [], currentWaypoint = 0,
      baseSpeed = st_speed stats, currentSpeed = st_speed stats,
      damage = or_default (st_damage stats) 1,
      statusResistance = Map.empty, enemyType = ''enemy''\<rparr>"

definition Scout :: "real \<Rightarrow> real \<Rightarrow> Enemy" where
  "Scout px py =
     (Enemy_new px py \<lparr>st_health = 20, st_speed = 90, st_goldReward = 2, st_scoreReward = 5,
        st_armor = 0, st_magicResist = 0, st_damage = 1\<rparr>)
       \<lparr>enemyType := ''scout'',
        statusResistance := [''slow'' \<mapsto> 0, ''freeze'' \<mapsto> 0]\<rparr>"

definition Knight :: "real \<Rightarrow> real \<Rightarrow> Enemy" where
  "Knight px py =
     (Enemy_new px py \<lparr>st_health = 80, st_speed = 35, st_goldReward = 5, st_scoreReward = 15,
        st_armor = 3, st_magicResist = 1 / 10, st_damage = 2\<rparr>)
       \<lparr>enemyType := ''knight'',
        statusResistance := [''slow'' \<mapsto> 3 / 10, ''freeze'' \<mapsto> 1 / 2]\<rparr>"

definition Dragon :: "real \<Rightarrow> real \<Rightarrow> Enemy" where
  "Dragon px py =
     (Enemy_new px py \<lparr>st_health = 50, st_speed = 55, st_goldReward = 8, st_scoreReward = 30,
        st_armor = 1, st_magicResist = 3 / 10, st_damage = 3\<rparr>)
       \<lparr>enemyType := ''dragon'',
        statusResistance := [''slow'' \<mapsto> 6 / 10, ''freeze'' \<mapsto> 8 / 10]\<rparr>"

text \<open>
  \<open>Enemy.onDamage\<close>: the reduced amount \<open>finalDamage\<close> is computed from armor or magic
  resistance and stored, rounded, for the damage number drawn over the enemy.
\<close>

definition finalDamage :: "real \<Rightarrow> string \<Rightarrow> Enemy \<Rightarrow> real" where
  "finalDamage amount damageType e =
     (if damageType = ''physical'' \<and> armor e > 0 then max 1 (amount - armor e)
      else if damageType = ''magic'' \<and> magicResist e > 0
        then max 1 (amount * (1 - magicResist e))
      else amount)"

definition onDamage :: "real \<Rightarrow> string \<Rightarrow> real \<Rightarrow> Enemy \<Rightarrow> Enemy" where
  "onDamage amount damageType now e =
     e\<lparr>damageFlashTime := 200,
       lastDamageAmount := Math_round (finalDamage amount damageType e),
       lastDamageTime := now\<rparr>"

text \<open>\<open>LivingEntity.takeDamage\<close>; the result is the returned flag and the entity.\<close>

definition takeDamage :: "real \<Rightarrow> string \<Rightarrow> real \<Rightarrow> Enemy \<Rightarrow> bool \<times> Enemy" where
  "takeDamage amount damageType now e =
     (if invulnerable e \<or> isDead e then (False, e)
      else (True,
        onDamage amount damageType now
          (e\<lparr>health := max 0 (health e - amount),
             lastDamageTime := now,
             damageFlashTime := 200,
             invulnerable := True,
             invulnerabilityTime := 100\<rparr>)))"

text \<open>\<open>LivingEntity.heal\<close>; \<open>onHeal\<close> is empty for every class.\<close>

definition heal :: "real \<Rightarrow> Enemy \<Rightarrow> Enemy" where
  "heal amount e =
     (if isDead e then e else e\<lparr>health := min (maxHealth e) (health e + amount)\<rparr>)"

text \<open>
  \<open>Enemy.onStatusEffectApplied\<close>: the resistance scales the method's own parameters
  \<open>duration\<close> and \<open>strength\<close>; after that only particles are spawned, so the entity is
  returned as it came.
\<close>

definition resisted :: "string \<Rightarrow> real \<Rightarrow> real \<Rightarrow> Enemy \<Rightarrow> real \<times> real" where
  "resisted kind dur str e =
     (case statusResistance e kind of
        Some resistance \<Rightarrow> (dur * (1 - resistance), str * (1 - resistance))
      | None \<Rightarrow> (dur, str))"

definition onStatusEffectApplied :: "string \<Rightarrow> real \<Rightarrow> real \<Rightarrow> Enemy \<Rightarrow> Enemy" where
  "onStatusEffectApplied kind dur str e = (let (dur', str') = resisted kind dur str e in e)"

text \<open>\<open>LivingEntity.applyStatusEffect\<close>: \<open>Map.set\<close>, then the hook.\<close>

definition applyStatusEffect :: "string \<Rightarrow> real \<Rightarrow> real \<Rightarrow> real \<Rightarrow> Enemy \<Rightarrow> Enemy" where
  "applyStatusEffect kind dur str now e =
     onStatusEffectApplied kind dur str
       (e\<lparr>statusEffects := (statusEffects e)
           (kind \<mapsto> \<lparr>duration = dur, strength = str, startTime = now\<rparr>)\<rparr>)"

definition removeStatusEffect :: "string \<Rightarrow> Enemy \<Rightarrow> Enemy" where
  "removeStatusEffect kind e =
     (if statusEffects e kind \<noteq> None then e\<lparr>statusEffects := (statusEffects e)(kind := None)\<rparr>
      else e)"

text \<open>
  \<open>LivingEntity.updateStatusEffects\<close>: every entry ages by \<open>deltaTime\<close> and is deleted once
  its duration is used up. Entries do not interact, so the iteration order of the JS map
  does not show in the result.
\<close>

definition updateStatusEffects :: "real \<Rightarrow> Enemy \<Rightarrow> Enemy" where
  "updateStatusEffects deltaTime e =
     e\<lparr>statusEffects := (\<lambda>kind.
         case statusEffects e kind of
           None \<Rightarrow> None
         | Some effect \<Rightarrow>
             if duration effect - deltaTime \<le> 0 then None
             else Some (effect\<lparr>duration := duration effect - deltaTime\<rparr>))\<rparr>"

text \<open>
  \<open>LivingEntity.onDeath\<close> sets the flags; \<open>Enemy.onDeath\<close> calls it and then pays the
  rewards. Neither looks at \<open>isDead\<close> first.
\<close>

definition LivingEntity_onDeath :: "Enemy \<Rightarrow> Enemy" where
  "LivingEntity_onDeath e = e\<lparr>isDead := True, isAlive := False\<rparr>"

definition onDeath :: "Enemy \<times> Game \<Rightarrow> Enemy \<times> Game" where
  "onDeath s =
     (let e = LivingEntity_onDeath (fst s)
      in (e, addScore (scoreReward e) (addGold (goldReward e) (snd s))))"

text \<open>\<open>Entity.update\<close>: a dead entity does not move.\<close>

definition Entity_update :: "real \<Rightarrow> Enemy \<Rightarrow> Enemy" where
  "Entity_update deltaTime e =
     (if \<not> isAlive e then e
      else e\<lparr>position := add (position e) (multiply (velocity e) deltaTime)\<rparr>)"

text \<open>
  \<open>LivingEntity.update\<close>: the invulnerability window runs down, the status effects age,
  and the death hook is called when the health is used up and the entity has not died yet.
\<close>

definition LivingEntity_update :: "real \<Rightarrow> Enemy \<times> Game \<Rightarrow> Enemy \<times> Game" where
  "LivingEntity_update deltaTime s =
     (let e0 = Entity_update deltaTime (fst s);
          e1 = (if invulnerable e0 \<and> invulnerabilityTime e0 > 0
                then (let e' = e0\<lparr>invulnerabilityTime := invulnerabilityTime e0 - deltaTime\<rparr>
                      in if invulnerabilityTime e' \<le> 0 then e'\<lparr>invulnerable := False\<rparr> else e')
                else e0);
          e2 = (if damageFlashTime e1 > 0
                then e1\<lparr>damageFlashTime := damageFlashTime e1 - deltaTime\<rparr> else e1);
          e3 = updateStatusEffects deltaTime e2
      in if health e3 \<le> 0 \<and> \<not> isDead e3 then onDeath (e3, snd s) else (e3, snd s))"

definition updateSpeed :: "Enemy \<Rightarrow> Enemy" where
  "updateSpeed e =
     (let s0 = baseSpeed e;
          s1 = (case statusEffects e ''slow'' of
                  Some slowEffect \<Rightarrow> s0 * (1 - strength slowEffect) | None \<Rightarrow> s0);
          s2 = (if statusEffects e ''freeze'' \<noteq> None then 0 else s1);
          s3 = (case statusEffects e ''haste'' of
                  Some hasteEffect \<Rightarrow> s2 * (1 + strength hasteEffect) | None \<Rightarrow> s2)
      in e\<lparr>currentSpeed := s3\<rparr>)"

definition followPath :: "real \<Rightarrow> Enemy \<Rightarrow> Enemy" where
  "followPath deltaTime e =
     (if length (path e) = 0 \<or> currentWaypoint e \<ge> length (path e) then e
      else let tgt = path e ! currentWaypoint e
           in if distanceTo (position e) tgt < 5 then e\<lparr>currentWaypoint := currentWaypoint e + 1\<rparr>
              else let direction = normalize (fst tgt - fst (position e), snd tgt - snd (position e));
                       moveDistance = currentSpeed e * deltaTime * (1 / 1000)
                   in e\<lparr>position := add (position e) (multiply direction moveDistance)\<rparr>)"

text \<open>\<open>Enemy.setPath\<close>: a copy of the waypoints; the enemy is put on the first one.\<close>

definition setPath :: "Vector2 list \<Rightarrow> Enemy \<Rightarrow> Enemy" where
  "setPath pts e =
     (let e1 = e\<lparr>path := pts, currentWaypoint := 0\<rparr>
      in if length pts > 0 then e1\<lparr>position := pts ! 0\<rparr> else e1)"

definition hasReachedEnd :: "Enemy \<Rightarrow> bool" where
  "hasReachedEnd e = (currentWaypoint e \<ge> length (path e))"

definition destroy :: "Enemy \<Rightarrow> Enemy" where
  "destroy e = e\<lparr>isAlive := False, isVisible := False\<rparr>"

definition onReachEnd :: "Enemy \<times> Game \<Rightarrow> Enemy \<times> Game" where
  "onReachEnd s = (destroy (fst s), Game_takeDamage (damage (fst s)) (snd s))"

text \<open>
  \<open>Enemy.update\<close>. The walk-cycle animation is left out, and so is what \<open>Dragon.update\<close>
  adds to it: the wing animation and a fire breath that only spawns particles.
\<close>

definition Enemy_update :: "real \<Rightarrow> Enemy \<times> Game \<Rightarrow> Enemy \<times> Game" where
  "Enemy_update deltaTime s =
     (let (e0, g0) = LivingEntity_update deltaTime s
      in if \<not> isAlive e0 \<or> isDead e0 then (e0, g0)
         else let e1 = followPath deltaTime (updateSpeed e0);
                  e2 = (if damageFlashTime e1 > 0
                        then e1\<lparr>damageFlashTime := max 0 (damageFlashTime e1 - deltaTime)\<rparr>
                        else e1)
              in if hasReachedEnd e2 then onReachEnd (e2, g0) else (e2, g0))"

subsection \<open>Sequences of damage and heal calls\<close>

datatype HealthCall = TakeDamage real string real | Heal real

fun amount_of :: "HealthCall \<Rightarrow> real" where
  "amount_of (TakeDamage amount damageType now) = amount"
| "amount_of (Heal amount) = amount"

fun call :: "HealthCall \<Rightarrow> Enemy \<Rightarrow> Enemy" where
  "call (TakeDamage amount damageType now) e = snd (takeDamage amount damageType now e)"
| "call (Heal amount) e = heal amount e"

fun calls :: "HealthCall list \<Rightarrow> Enemy \<Rightarrow> Enemy" where
  "calls [] e = e"
| "calls (c # cs) e = calls cs (call c e)"

text \<open>Repeated frames of one enemy: \<open>Enemy.update\<close> once per \<open>deltaTime\<close> of the list.\<close>

fun updates :: "real list \<Rightarrow> Enemy \<times> Game \<Rightarrow> Enemy \<times> Game" where
  "updates [] s = s"
| "updates (deltaTime # dts) s = updates dts (Enemy_update deltaTime s)"

subsection \<open>The object store and ObjectPool\<close>

text \<open>
  Enemy objects are shared between the manager, its pools and the towers, and are compared
  by identity (\<open>indexOf\<close>, \<open>Set.has\<close>). The store maps a reference to the object's current
  state; \<open>fresh\<close> is the next unused reference, taken by \<open>createFn\<close>.
\<close>

type_synonym store = "nat \<Rightarrow> Enemy"

record ObjectPool =
  pool :: "nat list"
  activeObjects :: "nat list"

text \<open>
  \<open>ObjectPool.get\<close>: \<open>pool.pop()\<close> takes the last pooled object; an empty pool constructs one.
  The result is the object's reference with the new store, counter and pool.
\<close>

definition ObjectPool_get ::
  "Enemy \<Rightarrow> store \<times> nat \<times> ObjectPool \<Rightarrow> nat \<times> store \<times> nat \<times> ObjectPool" where
  "ObjectPool_get createFn s =
     (case s of (h, fresh, p) \<Rightarrow>
        if length (pool p) > 0
        then (last (pool p), h, fresh,
              p\<lparr>pool := butlast (pool p), activeObjects := activeObjects p @ [last (pool p)]\<rparr>)
        else (fresh, h(fresh := createFn), Suc fresh,
              p\<lparr>activeObjects := activeObjects p @ [fresh]\<rparr>))"

text \<open>
  \<open>ObjectPool.release\<close>: \<open>indexOf\<close> and \<open>splice(index, 1)\<close> remove the first occurrence;
  an object that is not active is left alone.
\<close>

definition ObjectPool_release ::
  "(Enemy \<Rightarrow> Enemy) \<Rightarrow> nat \<Rightarrow> store \<times> ObjectPool \<Rightarrow> store \<times> ObjectPool" where
  "ObjectPool_release resetFn obj s =
     (case s of (h, p) \<Rightarrow>
        if obj \<in> set (activeObjects p)
        then (h(obj := resetFn (h obj)),
              p\<lparr>activeObjects := remove1 obj (activeObjects p), pool := pool p @ [obj]\<rparr>)
        else (h, p))"

text \<open>
  \<open>EnemyManager.resetEnemy\<close>, the \<open>resetFn\<close> of the three pools; \<open>mpath\<close> and \<open>spawnPoint\<close>
  are the manager's fields.
\<close>

definition resetEnemy :: "Vector2 list \<Rightarrow> Vector2 \<Rightarrow> Enemy \<Rightarrow> Enemy" where
  "resetEnemy mpath spawnPoint enemy =
     (let e1 = (if length mpath > 0 then enemy\<lparr>position := mpath ! 0\<rparr>
                else enemy\<lparr>position := spawnPoint\<rparr>)
      in e1\<lparr>health := maxHealth e1,
            isAlive := True,
            isDead := False,
            isVisible := True,
            currentWaypoint := 0,
            statusEffects := Map.empty,
            currentSpeed := baseSpeed e1,
            invulnerable := False,
            damageFlashTime := 0\<rparr>)"

text \<open>
  \<open>EnemyManager.spawnEnemy\<close> and \<open>EnemyManager.removeEnemy\<close>, for the pool of the enemy's
  type: \<open>enemies\<close> is the manager's list of active enemies. Spawning takes an object from
  the pool and sets its path; nothing else of the object is written. Removing an enemy
  that is in the list releases it into the pool.
\<close>

definition spawnEnemy ::
  "Enemy \<Rightarrow> Vector2 list \<Rightarrow> store \<times> nat \<times> ObjectPool \<times> nat list
     \<Rightarrow> nat \<times> store \<times> nat \<times> ObjectPool \<times> nat list" where
  "spawnEnemy createFn mpath s =
     (case s of (h, fresh, p, enemies) \<Rightarrow>
        (case ObjectPool_get createFn (h, fresh, p) of
           (enemy, h1, fresh1, p1) \<Rightarrow>
             (enemy, h1(enemy := setPath mpath (h1 enemy)), fresh1, p1, enemies @ [enemy])))"

definition removeEnemy ::
  "(Enemy \<Rightarrow> Enemy) \<Rightarrow> nat \<Rightarrow> store \<times> ObjectPool \<times> nat list
     \<Rightarrow> store \<times> ObjectPool \<times> nat list" where
  "removeEnemy resetFn enemy s =
     (case s of (h, p, enemies) \<Rightarrow>
        if enemy \<in> set enemies
        then (case ObjectPool_release resetFn enemy (h, p) of
                (h1, p1) \<Rightarrow> (h1, p1, remove1 enemy enemies))
        else (h, p, enemies))"

subsection \<open>Tower placement\<close>



text \<open>
  \<open>new MagicTower(x, y)\<close>: after the base constructor has set \<open>attackCooldown\<close> to
  \<open>1000 / attackSpeed\<close>, the subclass sets it to 0 and uses it as a countdown.
\<close>

definition MagicTower_new :: "real \<Rightarrow> real \<Rightarrow> MagicTower" where
  "MagicTower_new px py =
     \<lparr>tposition = (px, py), towerType = ''magic'',
      stats_damage = 2, stats_range = 100, stats_attackSpeed = 1, stats_cost = 20,
      stats_upgradeCost = 30, stats_sellValue = 15,
      level = 1, maxLevel = 3, target = None, lastAttackTime = 0,
      attackCooldown = 0, canAttack = True,
      chainCount = 3, chainRange = 60, slowAmount = 36 / 100, slowedEnemies = {}\<rparr>"









subsection \<open>Tower targeting, cooldown and upgrade\<close>

text \<open>
  The running nearest candidate of a scan is \<open>None\<close> while \<open>closestDistance\<close> is still
  \<open>Infinity\<close>; \<open>closer d acc\<close> is the test \<open>distance < closestDistance\<close>.
\<close>

definition closer :: "real \<Rightarrow> (nat \<times> real) option \<Rightarrow> bool" where
  "closer d acc = (case acc of None \<Rightarrow> True | Some c \<Rightarrow> d < snd c)"

fun findTarget_scan ::
  "store \<Rightarrow> Vector2 \<Rightarrow> real \<Rightarrow> nat list \<Rightarrow> (nat \<times> real) option \<Rightarrow> (nat \<times> real) option" where
  "findTarget_scan h pos rng [] acc = acc"
| "findTarget_scan h pos rng (enemy # rest) acc =
     (if \<not> isAlive (h enemy) then findTarget_scan h pos rng rest acc
      else let d = distanceTo pos (position (h enemy))
           in if d \<le> rng \<and> closer d acc then findTarget_scan h pos rng rest (Some (enemy, d))
              else findTarget_scan h pos rng rest acc)"

definition targetValid :: "store \<Rightarrow> 'a Tower_scheme \<Rightarrow> bool" where
  "targetValid h t =
     (case target t of
        None \<Rightarrow> False
      | Some r \<Rightarrow> isAlive (h r)
                  \<and> distanceTo (tposition t) (position (h r)) \<le> stats_range t * 2)"

text \<open>\<open>Tower.findTarget\<close>: a valid target is kept, else the nearest live enemy in range.\<close>

definition findTarget :: "store \<Rightarrow> nat list \<Rightarrow> 'a Tower_scheme \<Rightarrow> 'a Tower_scheme" where
  "findTarget h enemies t =
     (if targetValid h t then t
      else t\<lparr>target := map_option fst
                 (findTarget_scan h (tposition t) (stats_range t) enemies None)\<rparr>)"

definition canAttackTarget :: "store \<Rightarrow> 'a Tower_scheme \<Rightarrow> bool" where
  "canAttackTarget h t =
     (case target t of
        None \<Rightarrow> False
      | Some r \<Rightarrow> isAlive (h r)
                  \<and> distanceTo (tposition t) (position (h r)) \<le> stats_range t * (15 / 10))"

text \<open>
  \<open>Tower.update\<close>, the update of archer and cannon towers. The flag says whether
  \<open>attack()\<close> ran in this call. The range-circle animation is left out.
\<close>

definition Tower_update ::
  "real \<Rightarrow> real \<Rightarrow> store \<Rightarrow> nat list \<Rightarrow> 'a Tower_scheme \<Rightarrow> 'a Tower_scheme \<times> bool" where
  "Tower_update deltaTime now h enemies t =
     (if \<not> canAttack t then (t, False)
      else let t1 = (if target t \<noteq> None \<and> \<not> targetValid h t then t\<lparr>target := None\<rparr> else t);
               t2 = findTarget h enemies t1
           in if target t2 \<noteq> None \<and> canAttackTarget h t2
              then (if now - lastAttackTime t2 \<ge> attackCooldown t2
                    then (t2\<lparr>lastAttackTime := now\<rparr>, True)
                    else (t2, False))
              else (t2, False))"

text \<open>
  \<open>Tower.upgrade\<close> in three parts: the statistics and \<open>attackCooldown\<close> that the base
  class recomputes before it calls \<open>upgradeSpecialAbilities\<close>, the subclass's special
  abilities, and the costs that the base class updates afterwards. \<open>onUpgrade\<close> changes
  only \<open>stats.slowDuration\<close>, \<open>stats.slowAmount\<close> and \<open>stats.explosionRadius\<close> besides
  particles, and is left out.
\<close>

definition upgradeMultiplier :: "nat \<Rightarrow> real" where
  "upgradeMultiplier lvl = (if lvl = 2 then 13 / 10 else 15 / 10)"

definition upgrade_stats :: "'a Tower_scheme \<Rightarrow> 'a Tower_scheme" where
  "upgrade_stats t =
     (let lvl = level t + 1;
          m = upgradeMultiplier lvl;
          aspeed = stats_attackSpeed t * (1 + (m - 1) * (8 / 10))
      in t\<lparr>level := lvl,
           stats_damage := of_int (Math_round (stats_damage t * m)),
           stats_range := of_int (Math_round (stats_range t * (1 + (m - 1) * (5 / 10)))),
           stats_attackSpeed := aspeed,
           attackCooldown := 1000 / aspeed\<rparr>)"

definition upgrade_costs :: "'a Tower_scheme \<Rightarrow> 'a Tower_scheme" where
  "upgrade_costs t =
     t\<lparr>stats_upgradeCost := of_int (Math_round (stats_upgradeCost t * (16 / 10))),
       stats_sellValue := of_int (Math_round (stats_sellValue t * (14 / 10)))\<rparr>"

definition ArcherTower_upgradeSpecialAbilities :: "ArcherTower \<Rightarrow> ArcherTower" where
  "ArcherTower_upgradeSpecialAbilities a =
     (if level a = 2 then a\<lparr>piercingShots := 2\<rparr>
      else if level a = 3 then a\<lparr>multiShot := 3, piercingShots := 3\<rparr>
      else a)"

definition CannonTower_upgradeSpecialAbilities :: "CannonTower \<Rightarrow> CannonTower" where
  "CannonTower_upgradeSpecialAbilities c =
     (if level c = 2 then c\<lparr>explosionRadius := explosionRadius c + 20, stunChance := 3 / 10\<rparr>
      else if level c = 3
        then c\<lparr>explosionRadius := explosionRadius c + 30, stunChance := 5 / 10,
               burnDamage := of_int (Math_round (stats_damage c * (2 / 10)))\<rparr>
      else c)"

definition MagicTower_upgradeSpecialAbilities :: "MagicTower \<Rightarrow> MagicTower" where
  "MagicTower_upgradeSpecialAbilities m =
     (if level m = 2
      then m\<lparr>chainCount := 4, chainRange := 80, slowAmount := 48 / 100,
             stats_range := of_int (Math_round (stats_range m * (12 / 10)))\<rparr>
      else if level m = 3
        then m\<lparr>chainCount := 5, chainRange := 100, slowAmount := 54 / 100,
               stats_range := of_int (Math_round (stats_range m * (13 / 10))),
               stats_attackSpeed := 15 / 10\<rparr>
      else m)"

definition ArcherTower_upgrade :: "ArcherTower \<Rightarrow> bool \<times> ArcherTower" where
  "ArcherTower_upgrade a =
     (if level a \<ge> maxLevel a then (False, a)
      else (True, upgrade_costs (ArcherTower_upgradeSpecialAbilities (upgrade_stats a))))"

definition CannonTower_upgrade :: "CannonTower \<Rightarrow> bool \<times> CannonTower" where
  "CannonTower_upgrade c =
     (if level c \<ge> maxLevel c then (False, c)
      else (True, upgrade_costs (CannonTower_upgradeSpecialAbilities (upgrade_stats c))))"

definition MagicTower_upgrade :: "MagicTower \<Rightarrow> bool \<times> MagicTower" where
  "MagicTower_upgrade m =
     (if level m \<ge> maxLevel m then (False, m)
      else (True, upgrade_costs (MagicTower_upgradeSpecialAbilities (upgrade_stats m))))"

subsection \<open>The magic tower: slow field and chain lightning\<close>

text \<open>\<open>MagicTower.attackEnemy\<close>: an untyped \<open>takeDamage\<close>, whose result is not looked at.\<close>

definition attackEnemy :: "real \<Rightarrow> real \<Rightarrow> nat \<Rightarrow> store \<Rightarrow> store" where
  "attackEnemy dmg now enemy h =
     (if \<not> isAlive (h enemy) then h
      else h(enemy := snd (takeDamage dmg ''normal'' now (h enemy))))"

text \<open>
  \<open>MagicTower.findNextChainTarget\<close>: the scan over the manager's enemies, measured from the
  enemy hit last.
\<close>

fun chain_scan ::
  "store \<Rightarrow> real \<Rightarrow> nat \<Rightarrow> nat set \<Rightarrow> nat list \<Rightarrow> (nat \<times> real) option
     \<Rightarrow> (nat \<times> real) option" where
  "chain_scan h cr currentTarget hitEnemies [] acc = acc"
| "chain_scan h cr currentTarget hitEnemies (enemy # rest) acc =
     (if \<not> isAlive (h enemy) \<or> enemy \<in> hitEnemies
      then chain_scan h cr currentTarget hitEnemies rest acc
      else let d = distanceTo (position (h currentTarget)) (position (h enemy))
           in if d \<le> cr \<and> closer d acc
              then chain_scan h cr currentTarget hitEnemies rest (Some (enemy, d))
              else chain_scan h cr currentTarget hitEnemies rest acc)"

definition findNextChainTarget :: "store \<Rightarrow> real \<Rightarrow> nat list \<Rightarrow> nat \<Rightarrow> nat set \<Rightarrow> nat option" where
  "findNextChainTarget h cr enemies currentTarget hitEnemies =
     map_option fst (chain_scan h cr currentTarget hitEnemies enemies None)"

text \<open>
  The \<open>while\<close> loop of \<open>performChainLightning\<close>; \<open>n\<close> is \<open>this.chainCount - chainCount\<close>, the
  hops that are left. The chain path is kept as the list of the enemies hit, in order.
\<close>

fun chain_loop ::
  "real \<Rightarrow> real \<Rightarrow> real \<Rightarrow> nat list \<Rightarrow> nat \<Rightarrow> nat \<Rightarrow> nat set \<Rightarrow> nat list \<Rightarrow> store
     \<Rightarrow> store \<times> nat list" where
  "chain_loop dmg cr now enemies 0 currentTarget hitEnemies chainPath h = (h, chainPath)"
| "chain_loop dmg cr now enemies (Suc n) currentTarget hitEnemies chainPath h =
     (case findNextChainTarget h cr enemies currentTarget hitEnemies of
        None \<Rightarrow> (h, chainPath)
      | Some nextTarget \<Rightarrow>
          chain_loop dmg cr now enemies n nextTarget (insert nextTarget hitEnemies)
            (chainPath @ [nextTarget]) (attackEnemy dmg now nextTarget h))"

definition performChainLightning ::
  "MagicTower \<Rightarrow> real \<Rightarrow> nat list \<Rightarrow> nat \<Rightarrow> store \<Rightarrow> store \<times> nat list" where
  "performChainLightning m now enemies firstTarget h =
     chain_loop (stats_damage m) (chainRange m) now enemies (chainCount m - 1)
       firstTarget {firstTarget} [firstTarget] (attackEnemy (stats_damage m) now firstTarget h)"

text \<open>
  The slow field of \<open>MagicTower.update\<close>: every live enemy in range is slowed again and
  collected in \<open>currentEnemiesInRange\<close>.
\<close>

fun slow_scan :: "MagicTower \<Rightarrow> real \<Rightarrow> nat list \<Rightarrow> store \<times> nat set \<Rightarrow> store \<times> nat set" where
  "slow_scan m now [] s = s"
| "slow_scan m now (enemy # rest) s =
     (if \<not> isAlive (fst s enemy) then slow_scan m now rest s
      else if distanceTo (tposition m) (position (fst s enemy)) \<le> stats_range m
        then slow_scan m now rest
               ((fst s)(enemy := applyStatusEffect ''slow'' 10000 (slowAmount m) now (fst s enemy)),
                insert enemy (snd s))
        else slow_scan m now rest s)"

text \<open>
  \<open>MagicTower.update\<close>. The result holds the chain path when a strike was performed in this
  call. The pulsing of \<open>magicEnergy\<close> is left out.
\<close>

definition MagicTower_update ::
  "real \<Rightarrow> real \<Rightarrow> nat list \<Rightarrow> store \<times> MagicTower \<Rightarrow> (store \<times> MagicTower) \<times> nat list option" where
  "MagicTower_update deltaTime now enemies s =
     (case s of (h, m) \<Rightarrow>
        if \<not> canAttack m then ((h, m), None)
        else let m1 = m\<lparr>attackCooldown := attackCooldown m - deltaTime\<rparr>;
                 (h1, currentEnemiesInRange) = slow_scan m1 now enemies (h, {});
                 h2 = (\<lambda>r. if r \<in> slowedEnemies m1 \<and> r \<notin> currentEnemiesInRange
                            then removeStatusEffect ''slow'' (h1 r) else h1 r);
                 m2 = m1\<lparr>slowedEnemies := currentEnemiesInRange\<rparr>
             in if attackCooldown m2 \<le> 0
                then (let m3 = findTarget h2 enemies m2
                      in case target m3 of
                           None \<Rightarrow> ((h2, m3), None)
                         | Some tgt \<Rightarrow>
                             (let (h3, chainPath) = performChainLightning m3 now enemies tgt h2
                              in ((h3, m3\<lparr>attackCooldown := 1000 / stats_attackSpeed m3\<rparr>),
                                  Some chainPath)))
                else ((h2, m2), None))"

text \<open>
  A magic tower over time: frames of \<open>deltaTime\<close> milliseconds and upgrades bought by the
  player in between. The clock adds up the frames; the result lists the clock at every
  strike with the attack speed the tower had then.
\<close>

datatype TowerEvent = Frame real | Upgrade

fun MagicTower_run ::
  "nat list \<Rightarrow> TowerEvent list \<Rightarrow> real \<Rightarrow> store \<times> MagicTower \<Rightarrow> (real \<times> real) list" where
  "MagicTower_run enemies [] clock s = []"
| "MagicTower_run enemies (Frame deltaTime # evs) clock s =
     (case MagicTower_update deltaTime (clock + deltaTime) enemies s of
        (s', None) \<Rightarrow> MagicTower_run enemies evs (clock + deltaTime) s'
      | (s', Some chainPath) \<Rightarrow>
          (clock + deltaTime, stats_attackSpeed (snd s'))
            # MagicTower_run enemies evs (clock + deltaTime) s')"
| "MagicTower_run enemies (Upgrade # evs) clock s =
     MagicTower_run enemies evs clock (fst s, snd (MagicTower_upgrade (snd s)))"

text \<open>Frames of a magic tower alone, for the state they leave.\<close>

fun MagicTower_frames ::
  "nat list \<Rightarrow> real list \<Rightarrow> real \<Rightarrow> store \<times> MagicTower \<Rightarrow> store \<times> MagicTower" where
  "MagicTower_frames enemies [] clock s = s"
| "MagicTower_frames enemies (deltaTime # dts) clock s =
     MagicTower_frames enemies dts (clock + deltaTime)
       (fst (MagicTower_update deltaTime (clock + deltaTime) enemies s))"

subsection \<open>Fixtures\<close>

text \<open>
  \<open>new Game(...)\<close> with the map cells and the waypoints as given: 50 gold, 20 lives, a
  15 by 10 grid of 60 pixel cells, no tower type selected, no towers.
\<close>

definition Game_new :: "bool list list \<Rightarrow> Vector2 list \<Rightarrow> Game" where
  "Game_new cells waypoints =
     \<lparr>gold = 50, score = 0, lives = 20, selectedTowerType = None, isPlacingTower = False,
      gridSize = 60, mapWidth = 15, mapHeight = 10, game_map = cells, game_path = waypoints,
      towers = []\<rparr>"


text \<open>
  The waypoints of \<open>Game.setupPath\<close>, the spawn point of the \<open>EnemyManager\<close> constructor,
  and the scout pool as its constructor fills it: ten scouts, none active.
\<close>

definition game_waypoints :: "Vector2 list" where
  "game_waypoints =
     [(- 30, 210), (30, 210), (90, 210), (150, 210), (210, 150), (270, 90), (330, 90),
      (390, 150), (450, 210), (510, 270), (570, 330), (630, 330), (690, 270), (750, 210),
      (810, 150), (870, 150), (930, 150)]"

definition EnemyManager_spawnPoint :: Vector2 where
  "EnemyManager_spawnPoint = (- 30, 210)"

definition scout_pool :: ObjectPool where
  "scout_pool = \<lparr>pool = [0, 1, 2, 3, 4, 5, 6, 7, 8, 9], activeObjects = []\<rparr>"

text \<open>
  A line of scouts ten pixels apart, the enemy with reference \<open>r\<close> at \<open>(10 r, 0)\<close>; and the
  same line after an arrow has just hit enemy 1, whose invulnerability window is open.
\<close>

definition scout_line :: store where
  "scout_line = (\<lambda>r. Scout (10 * real r) 0)"

definition scout_line_shielded :: store where
  "scout_line_shielded = scout_line(1 := snd (takeDamage 1 ''physical'' 0 (Scout 10 0)))"

text \<open>
  A cluster with an outsider: enemy 0 at the origin, enemies 1 to 4 at 55 to 58 pixels to
  its right, within chain radius 60 of it and of each other, and enemy 5 at 40 pixels to
  its left, out of reach of enemies 1 to 4.
\<close>

definition scout_cluster :: store where
  "scout_cluster = (\<lambda>r. Scout (if r = 0 then 0 else if r = 5 then - 40 else 54 + real r) 0)"

subsection \<open>Predicates of the chain\<close>

text \<open>
  \<open>eligible\<close>: what \<open>findNextChainTarget\<close> admits as a candidate. \<open>nearest_unhit\<close>: hop \<open>k\<close>
  of a chain goes from its \<open>k\<close>-th enemy to a nearest one among the live enemies that the
  chain has not hit before that hop.
\<close>

definition eligible :: "store \<Rightarrow> real \<Rightarrow> nat \<Rightarrow> nat set \<Rightarrow> nat \<Rightarrow> bool" where
  "eligible h cr cur hit r \<longleftrightarrow>
     isAlive (h r) \<and> r \<notin> hit \<and> distanceTo (position (h cur)) (position (h r)) \<le> cr"

definition nearest_unhit :: "store \<Rightarrow> nat list \<Rightarrow> nat list \<Rightarrow> nat \<Rightarrow> bool" where
  "nearest_unhit h enemies hits k \<longleftrightarrow>
     (\<forall>r \<in> set enemies. isAlive (h r) \<and> r \<notin> set (take (Suc k) hits) \<longrightarrow>
        distanceTo (position (h (hits ! k))) (position (h (hits ! Suc k)))
          \<le> distanceTo (position (h (hits ! k))) (position (h r)))"

section \<open>Properties\<close>

lemmas enemy_ctor_defs = Knight_def Scout_def Dragon_def Enemy_new_def or_default_def

subsection \<open>Damage intake\<close>

text \<open>
  Whatever the damage type, a successful \<open>takeDamage\<close> takes the raw amount off the health;
  the armor and the magic resistance only enter the number shown over the enemy.
\<close>

lemma takeDamage_health_raw:
  "\<not> invulnerable e \<Longrightarrow> \<not> isDead e \<Longrightarrow>
     health (snd (takeDamage amount damageType now e)) = max 0 (health e - amount)"
  by (simp add: takeDamage_def onDamage_def)

lemma takeDamage_shows_reduced:
  "\<not> invulnerable e \<Longrightarrow> \<not> isDead e \<Longrightarrow>
     lastDamageAmount (snd (takeDamage amount damageType now e))
       = Math_round (finalDamage amount damageType e)"
  by (simp add: takeDamage_def onDamage_def finalDamage_def)

text \<open>
  C1. The claim: physical damage is reduced by the armor, magic damage by the magic
  resistance, each with a floor of 1, and explosive or untyped damage passes unreduced.
  The code at a knight (armor 3, health 80) hit by an arrow of 12 physical damage: the
  health drops by 12 to 68, where the claim asks for \<open>max 1 (12 - 3) = 9\<close> and a health
  of 71; the 9 is only stored as the number to display. Likewise a dragon (magic
  resistance 0.3, health 50) loses the full 10 of a magic hit, not 7.
\<close>

theorem takeDamage_ignores_armor:
  "health (snd (takeDamage 12 ''physical'' now (Knight 0 0))) = 68
   \<and> max 0 (health (Knight 0 0) - max 1 (12 - armor (Knight 0 0))) = 71
   \<and> lastDamageAmount (snd (takeDamage 12 ''physical'' now (Knight 0 0))) = 9
   \<and> health (snd (takeDamage 10 ''magic'' now (Dragon 0 0))) = 40
   \<and> max 0 (health (Dragon 0 0) - max 1 (10 * (1 - magicResist (Dragon 0 0)))) = 43"
  by (simp add: takeDamage_def onDamage_def finalDamage_def Math_round_def enemy_ctor_defs)

subsection \<open>Status effects\<close>

text \<open>
  C2. The claim: the stored effect has the incoming duration and strength scaled by
  \<open>1 - resistance\<close>. The code at a knight (slow resistance 0.3) slowed by a magic tower
  with \<open>applyStatusEffect("slow", 10000, 0.36)\<close>: the map holds duration 10000 and
  strength 0.36 as they came in; the scaled values 7000 and 0.252 are computed in the
  hook's own parameters and dropped.
\<close>

theorem applyStatusEffect_ignores_resistance:
  "statusResistance (Knight 0 0) ''slow'' = Some (3 / 10)
   \<and> statusEffects (applyStatusEffect ''slow'' 10000 (36 / 100) now (Knight 0 0)) ''slow''
       = Some \<lparr>duration = 10000, strength = 36 / 100, startTime = now\<rparr>
   \<and> resisted ''slow'' 10000 (36 / 100) (Knight 0 0) = (7000, 252 / 1000)"
  by (simp add: applyStatusEffect_def onStatusEffectApplied_def resisted_def enemy_ctor_defs)

text \<open>
  C7. Applying a status effect stores one entry under its kind, in place of the entry that
  was there: after \<open>slow(1000, 0.5)\<close> and then \<open>slow(500, 0.3)\<close> the entry under \<open>slow\<close> has
  duration 500 and strength 0.3, and the map has no key that it did not have before but
  \<open>slow\<close>. This holds for every enemy, whatever its resistance and whatever was stored.
\<close>

theorem applyStatusEffect_replaces:
  "statusEffects (applyStatusEffect kind dur str now e)
     = (statusEffects e)(kind \<mapsto> \<lparr>duration = dur, strength = str, startTime = now\<rparr>)
   \<and> statusEffects (applyStatusEffect ''slow'' 500 (3 / 10) t2
        (applyStatusEffect ''slow'' 1000 (5 / 10) t1 e)) ''slow''
       = Some \<lparr>duration = 500, strength = 3 / 10, startTime = t2\<rparr>
   \<and> dom (statusEffects (applyStatusEffect ''slow'' 500 (3 / 10) t2
        (applyStatusEffect ''slow'' 1000 (5 / 10) t1 e)))
       = insert ''slow'' (dom (statusEffects e))"
  by (simp add: applyStatusEffect_def onStatusEffectApplied_def split: prod.splits)

subsection \<open>Health bounds\<close>

lemma call_health_bounds:
  assumes "0 \<le> health e" "health e \<le> maxHealth e" "0 \<le> amount_of c"
  shows "0 \<le> health (call c e) \<and> health (call c e) \<le> maxHealth (call c e)"
  using assms by (cases c) (auto simp: takeDamage_def onDamage_def heal_def)

lemma calls_health_bounds:
  assumes "0 \<le> health e" "health e \<le> maxHealth e" "\<forall>c \<in> set cs. 0 \<le> amount_of c"
  shows "0 \<le> health (calls cs e) \<and> health (calls cs e) \<le> maxHealth (calls cs e)"
  using assms
proof (induction cs arbitrary: e)
  case Nil
  then show ?case by simp
next
  case (Cons c cs)
  have "0 \<le> health (call c e) \<and> health (call c e) \<le> maxHealth (call c e)"
    using Cons.prems by (intro call_health_bounds) auto
  with Cons show ?case by simp
qed

text \<open>
  C6, as amended. For an entity that starts with \<open>0 \<le> health \<le> maxHealth\<close> and every
  sequence of \<open>takeDamage\<close> and \<open>heal\<close> calls whose amounts are not negative, the bounds
  hold after each call (after every prefix of the sequence).
\<close>

theorem health_bounds_nonneg_calls:
  assumes "0 \<le> health e" "health e \<le> maxHealth e" "\<forall>c \<in> set cs. 0 \<le> amount_of c"
  shows "0 \<le> health (calls (take n cs) e)
    \<and> health (calls (take n cs) e) \<le> maxHealth (calls (take n cs) e)"
proof -
  have "\<forall>c \<in> set (take n cs). 0 \<le> amount_of c"
    using assms(3) by (meson in_set_takeD)
  with assms(1,2) show ?thesis by (rule calls_health_bounds)
qed

theorem health_bounds_witness:
  "0 \<le> health (calls [TakeDamage 12 ''physical'' 0, Heal 5, TakeDamage 30 ''magic'' 1] (Scout 0 0))
   \<and> health (calls [TakeDamage 12 ''physical'' 0, Heal 5, TakeDamage 30 ''magic'' 1] (Scout 0 0))
       \<le> maxHealth
           (calls [TakeDamage 12 ''physical'' 0, Heal 5, TakeDamage 30 ''magic'' 1] (Scout 0 0))"
  using health_bounds_nonneg_calls [of "Scout 0 0"
      "[TakeDamage 12 ''physical'' 0, Heal 5, TakeDamage 30 ''magic'' 1]" 3]
  by (simp add: enemy_ctor_defs)

text \<open>
  C6 as stated fails: each method clamps on one side only, so a negative amount leaves the
  range on the other side. \<open>takeDamage(-5)\<close> on a fresh scout gives health 25 over its
  maximum of 20.
\<close>

theorem negative_damage_exceeds_maxHealth:
  "\<not> health (calls [TakeDamage (- 5) ''normal'' 0] (Scout 0 0))
       \<le> maxHealth (calls [TakeDamage (- 5) ''normal'' 0] (Scout 0 0))"
  by (simp add: takeDamage_def onDamage_def enemy_ctor_defs)

lemma negative_heal_below_zero:
  "health (calls [TakeDamage 18 ''normal'' 0, Heal (- 5)] (Scout 0 0)) = - 3"
  by (simp add: takeDamage_def onDamage_def heal_def enemy_ctor_defs)

subsection \<open>Invulnerability\<close>

text \<open>
  C10. A \<open>takeDamage\<close> call on an entity that is invulnerable or dead returns false and
  returns the entity as it was, for every amount and damage type; a call on any other
  entity succeeds and opens a window of 100 ms; and \<open>update\<close> keeps the entity invulnerable
  while the frame is shorter than the time left in the window.
\<close>

theorem takeDamage_blocked:
  "(invulnerable e \<or> isDead e \<longrightarrow> takeDamage amount damageType now e = (False, e))
   \<and> (\<not> invulnerable e \<and> \<not> isDead e \<longrightarrow>
        fst (takeDamage amount damageType now e)
        \<and> invulnerable (snd (takeDamage amount damageType now e))
        \<and> invulnerabilityTime (snd (takeDamage amount damageType now e)) = 100)
   \<and> (invulnerable e \<and> deltaTime < invulnerabilityTime e \<longrightarrow>
        invulnerable (fst (LivingEntity_update deltaTime (e, g))))"
  by (auto simp: takeDamage_def onDamage_def LivingEntity_update_def Entity_update_def
      updateStatusEffects_def onDeath_def LivingEntity_onDeath_def Let_def)

theorem takeDamage_blocked_witness:
  "\<not> invulnerable (Scout 0 0) \<and> \<not> isDead (Scout 0 0)
   \<and> invulnerable (snd (takeDamage 5 ''physical'' 0 (Scout 0 0)))
   \<and> takeDamage 7 ''magic'' 50 (snd (takeDamage 5 ''physical'' 0 (Scout 0 0)))
       = (False, snd (takeDamage 5 ''physical'' 0 (Scout 0 0)))
   \<and> 16 < invulnerabilityTime (snd (takeDamage 5 ''physical'' 0 (Scout 0 0)))
   \<and> invulnerable (fst (LivingEntity_update 16
         (snd (takeDamage 5 ''physical'' 0 (Scout 0 0)), Game_new [] [])))"
  using takeDamage_blocked [of "Scout 0 0" 5 "''physical''" 0 0 "Game_new [] []"]
    takeDamage_blocked [of "snd (takeDamage 5 ''physical'' 0 (Scout 0 0))" 7 "''magic''" 50 16
      "Game_new [] []"]
  by (simp add: enemy_ctor_defs)

subsection \<open>The death hook\<close>

lemma LivingEntity_update_dead:
  "isDead e \<Longrightarrow> snd (LivingEntity_update deltaTime (e, g)) = g
     \<and> isDead (fst (LivingEntity_update deltaTime (e, g)))"
  by (simp add: LivingEntity_update_def Entity_update_def updateStatusEffects_def Let_def)

lemma Enemy_update_dead:
  assumes "isDead e"
  shows "snd (Enemy_update deltaTime (e, g)) = g
     \<and> isDead (fst (Enemy_update deltaTime (e, g)))"
proof -
  obtain e0 g0 where u: "LivingEntity_update deltaTime (e, g) = (e0, g0)"
    by (cases "LivingEntity_update deltaTime (e, g)")
  with LivingEntity_update_dead [OF assms, of deltaTime g] have "g0 = g" "isDead e0"
    by simp_all
  with u show ?thesis by (simp add: Enemy_update_def)
qed

lemma updates_dead:
  "isDead (fst s) \<Longrightarrow> snd (updates dts s) = snd s \<and> isDead (fst (updates dts s))"
proof (induction dts arbitrary: s)
  case Nil
  then show ?case by simp
next
  case (Cons dt dts)
  obtain e g where s: "s = (e, g)" by (cases s)
  with Cons.prems have "isDead e" by simp
  then have "snd (Enemy_update dt (e, g)) = g \<and> isDead (fst (Enemy_update dt (e, g)))"
    by (rule Enemy_update_dead)
  with Cons.IH [of "Enemy_update dt (e, g)"] s show ?case by simp
qed

lemma Enemy_update_dies:
  assumes "\<not> isDead e" "health e \<le> 0"
  shows "gold (snd (Enemy_update deltaTime (e, g))) = gold g + goldReward e
     \<and> score (snd (Enemy_update deltaTime (e, g))) = score g + scoreReward e
     \<and> lives (snd (Enemy_update deltaTime (e, g))) = lives g
     \<and> isDead (fst (Enemy_update deltaTime (e, g)))"
  using assms
  by (simp add: Enemy_update_def LivingEntity_update_def Entity_update_def
      updateStatusEffects_def onDeath_def LivingEntity_onDeath_def addGold_def addScore_def
      Let_def split: prod.splits)

text \<open>
  C3, as amended. \<open>update\<close> calls the death hook only for an enemy that has not died yet:
  once an enemy is dead, any number of further updates leaves gold and score as they are,
  and for an enemy whose health is used up the first update pays the gold and the score
  reward and the later ones pay nothing.
\<close>

theorem death_rewards_once_per_update:
  "(isDead e \<longrightarrow>
      gold (snd (updates dts (e, g))) = gold g \<and> score (snd (updates dts (e, g))) = score g)
   \<and> (\<not> isDead e \<and> health e \<le> 0 \<longrightarrow>
      gold (snd (updates (deltaTime # dts) (e, g))) = gold g + goldReward e
      \<and> score (snd (updates (deltaTime # dts) (e, g))) = score g + scoreReward e)"
proof (intro conjI impI)
  assume "isDead e"
  then show "gold (snd (updates dts (e, g))) = gold g"
    "score (snd (updates dts (e, g))) = score g"
    using updates_dead [of "(e, g)" dts] by simp_all
next
  assume a: "\<not> isDead e \<and> health e \<le> 0"
  then have d: "gold (snd (Enemy_update deltaTime (e, g))) = gold g + goldReward e
     \<and> score (snd (Enemy_update deltaTime (e, g))) = score g + scoreReward e
     \<and> lives (snd (Enemy_update deltaTime (e, g))) = lives g
     \<and> isDead (fst (Enemy_update deltaTime (e, g)))"
    by (intro Enemy_update_dies) simp_all
  then have "snd (updates dts (Enemy_update deltaTime (e, g)))
      = snd (Enemy_update deltaTime (e, g))"
    using updates_dead [of "Enemy_update deltaTime (e, g)" dts] by simp
  with d show "gold (snd (updates (deltaTime # dts) (e, g))) = gold g + goldReward e"
    "score (snd (updates (deltaTime # dts) (e, g))) = score g + scoreReward e"
    by simp_all
qed

theorem death_rewards_witness:
  "isDead (fst (onDeath (Scout 0 0, Game_new [] [])))
   \<and> gold (snd (updates [16, 16, 16] (onDeath (Scout 0 0, Game_new [] [])))) = 52
   \<and> \<not> isDead (snd (takeDamage 25 ''normal'' 0 (Scout 0 0)))
   \<and> health (snd (takeDamage 25 ''normal'' 0 (Scout 0 0))) \<le> 0
   \<and> gold (snd (updates [16, 16, 16]
        (snd (takeDamage 25 ''normal'' 0 (Scout 0 0)), Game_new [] []))) = 52
   \<and> score (snd (updates [16, 16, 16]
        (snd (takeDamage 25 ''normal'' 0 (Scout 0 0)), Game_new [] []))) = 5"
  using death_rewards_once_per_update [of "fst (onDeath (Scout 0 0, Game_new [] []))"
      "[16, 16, 16]" "snd (onDeath (Scout 0 0, Game_new [] []))" 16]
    death_rewards_once_per_update [of "snd (takeDamage 25 ''normal'' 0 (Scout 0 0))" "[16, 16]"
      "Game_new [] []" 16]
  by (simp add: onDeath_def LivingEntity_onDeath_def addGold_def addScore_def Game_new_def
      takeDamage_def onDamage_def enemy_ctor_defs)

text \<open>
  C3 as stated fails: the hook itself does not look at \<open>isDead\<close>. Called a second time on
  a scout (2 gold, 5 score) that has already died, it pays again: gold goes from 52 to 54
  and the score from 5 to 10.
\<close>

theorem onDeath_twice_pays_twice:
  "isDead (fst (onDeath (Scout 0 0, Game_new [] [])))
   \<and> gold (snd (onDeath (Scout 0 0, Game_new [] []))) = 52
   \<and> gold (snd (onDeath (onDeath (Scout 0 0, Game_new [] [])))) = 54
   \<and> score (snd (onDeath (Scout 0 0, Game_new [] []))) = 5
   \<and> score (snd (onDeath (onDeath (Scout 0 0, Game_new [] [])))) = 10"
  by (simp add: onDeath_def LivingEntity_onDeath_def addGold_def addScore_def Game_new_def
      enemy_ctor_defs)

subsection \<open>Pooled enemies\<close>

lemma get_active:
  "ObjectPool_get createFn (h, fresh, p) = (r, h1, f1, p1) \<Longrightarrow> r \<in> set (activeObjects p1)"
  by (auto simp: ObjectPool_get_def split: if_splits)

lemma release_then_get:
  assumes "r \<in> set (activeObjects p1)"
  shows "ObjectPool_get createFn (fst (ObjectPool_release resetFn r (h2, p1)), f1,
            snd (ObjectPool_release resetFn r (h2, p1)))
         = (r, h2(r := resetFn (h2 r)), f1,
            p1\<lparr>activeObjects := remove1 r (activeObjects p1) @ [r], pool := pool p1\<rparr>)"
  using assms by (simp add: ObjectPool_get_def ObjectPool_release_def)

text \<open>
  The reset runs inside \<open>release\<close>. An enemy \<open>r\<close> is taken from a pool; the store is then
  changed in any way (\<open>h2\<close> is arbitrary); \<open>r\<close> is released. A \<open>get\<close> that follows at once,
  on the store as \<open>release\<close> left it, yields \<open>r\<close> again with full health, at the first waypoint
  of the manager's path (at the spawn point when the manager has no path), with no status
  effects, waypoint index 0, its base speed, alive, not dead, visible and not
  invulnerable.
\<close>

lemma immediate_reacquisition_is_reset:
  "(case ObjectPool_get createFn (h, fresh, p) of
      (r, h1, f1, p1) \<Rightarrow>
        (case ObjectPool_release (resetEnemy mpath spawnPoint) r (h2, p1) of
           (h3, p3) \<Rightarrow>
             (case ObjectPool_get createFn (h3, f1, p3) of
                (r', h4, f4, p4) \<Rightarrow>
                  r' = r
                  \<and> health (h4 r) = maxHealth (h4 r)
                  \<and> maxHealth (h4 r) = maxHealth (h2 r)
                  \<and> position (h4 r) = (if length mpath > 0 then mpath ! 0 else spawnPoint)
                  \<and> statusEffects (h4 r) = Map.empty
                  \<and> currentWaypoint (h4 r) = 0
                  \<and> currentSpeed (h4 r) = baseSpeed (h4 r)
                  \<and> baseSpeed (h4 r) = baseSpeed (h2 r)
                  \<and> isAlive (h4 r) \<and> \<not> isDead (h4 r) \<and> isVisible (h4 r)
                  \<and> \<not> invulnerable (h4 r))))"
proof -
  obtain r h1 f1 p1 where g: "ObjectPool_get createFn (h, fresh, p) = (r, h1, f1, p1)"
    by (cases "ObjectPool_get createFn (h, fresh, p)")
  then have act: "r \<in> set (activeObjects p1)" by (rule get_active)
  obtain h3 p3 where
    rel: "ObjectPool_release (resetEnemy mpath spawnPoint) r (h2, p1) = (h3, p3)"
    by (cases "ObjectPool_release (resetEnemy mpath spawnPoint) r (h2, p1)")
  from release_then_get [OF act, of createFn "resetEnemy mpath spawnPoint" h2 f1] rel
  have g2: "ObjectPool_get createFn (h3, f1, p3)
     = (r, h2(r := resetEnemy mpath spawnPoint (h2 r)), f1,
        p1\<lparr>activeObjects := remove1 r (activeObjects p1) @ [r], pool := pool p1\<rparr>)"
    by simp
  show ?thesis
    by (simp add: g rel g2 resetEnemy_def)
qed

lemma distanceTo_le:
  "0 \<le> d \<Longrightarrow> distanceTo p q \<le> d \<longleftrightarrow> (fst q - fst p)\<^sup>2 + (snd q - snd p)\<^sup>2 \<le> d\<^sup>2"
  unfolding distanceTo_def distance_def
  by (metis real_sqrt_le_iff real_sqrt_abs abs_of_nonneg)

lemma scout_fields:
  "isAlive (Scout px py)" "position (Scout px py) = (px, py)" "health (Scout px py) = 20"
  "\<not> invulnerable (Scout px py)" "\<not> isDead (Scout px py)"
  by (simp_all add: enemy_ctor_defs)

lemma takeDamage_fields:
  "isAlive (snd (takeDamage a ty now e)) = isAlive e"
  "position (snd (takeDamage a ty now e)) = position e"
  by (simp_all add: takeDamage_def onDamage_def)

lemma first_spawn:
  "spawnEnemy (Scout 0 0) game_waypoints (\<lambda>r. Scout 0 0, 10, scout_pool, [])
     = (9, (\<lambda>r. Scout 0 0)(9 := Scout (- 30) 210\<lparr>path := game_waypoints\<rparr>), 10,
        \<lparr>pool = [0, 1, 2, 3, 4, 5, 6, 7, 8], activeObjects = [9]\<rparr>, [9])"
  by (simp add: spawnEnemy_def ObjectPool_get_def scout_pool_def setPath_def
      Scout_def Enemy_new_def or_default_def game_waypoints_def)

text \<open>
  Between release and the next acquisition the pooled enemy is not out of reach: the reset
  has set \<open>isAlive\<close> again, and a tower that holds the enemy as its target asks for no more.
  A scout is spawned; a magic tower at (30, 270) strikes it in the frame that ends at
  20 ms and keeps it as target; four frames of 100 ms pass; the scout is removed and
  released. Whatever the store \<open>h\<close> is at that moment, after six more frames of 100 ms, with
  no enemy on the map, the tower strikes the pooled scout, and the next spawn yields that
  scout two points under its full health, and invulnerable.
\<close>

lemma pooled_enemy_is_struck:
  "(case spawnEnemy (Scout 0 0) game_waypoints (\<lambda>r. Scout 0 0, 10, scout_pool, []) of
      (r, h1, f1, p1, es1) \<Rightarrow>
        (case MagicTower_update 20 20 es1 (h1, MagicTower_new 30 270) of
           ((h2, m2), strike1) \<Rightarrow>
             (case MagicTower_frames es1 [100, 100, 100, 100] 20 (h2, m2) of
                (h3, m3) \<Rightarrow>
                  (case removeEnemy (resetEnemy game_waypoints EnemyManager_spawnPoint) r
                          (h, p1, es1) of
                     (h4, p4, es4) \<Rightarrow>
                       (case MagicTower_update 100 1020 es4
                               (MagicTower_frames es4 [100, 100, 100, 100, 100] 420 (h4, m3)) of
                          ((h5, m5), strike2) \<Rightarrow>
                            (case spawnEnemy (Scout 0 0) game_waypoints (h5, f1, p4, es4) of
                               (r', h6, f6, p6, es6) \<Rightarrow>
                                 strike1 = Some [r] \<and> es4 = [] \<and> strike2 = Some [r] \<and> r' = r
                                 \<and> health (h6 r) = max 0 (maxHealth (h r) - 2)
                                 \<and> maxHealth (h6 r) = maxHealth (h r)
                                 \<and> invulnerable (h6 r)))))))"
  unfolding first_spawn
  by (simp add: MagicTower_update_def MagicTower_new_def findTarget_def targetValid_def
      performChainLightning_def findNextChainTarget_def attackEnemy_def
      scout_fields takeDamage_fields distanceTo_le closer_def Let_def
      applyStatusEffect_def onStatusEffectApplied_def resisted_def removeStatusEffect_def
      removeEnemy_def ObjectPool_release_def resetEnemy_def game_waypoints_def
      EnemyManager_spawnPoint_def spawnEnemy_def ObjectPool_get_def setPath_def
      takeDamage_def onDamage_def LivingEntity_onDeath_def enemy_ctor_defs
      numeral_2_eq_2 split: prod.splits)

text \<open>
  C8. The claim: an enemy taken from a pool, changed in any way and released is, at its
  next acquisition from that pool, at full health, at the path start, without status
  effects, at waypoint 0, at its base speed and with its alive flags restored. The code at
  the scout pool of the game: \<open>spawnEnemy\<close> takes scout 9 and puts it on the first
  waypoint; a magic tower at (30, 270) strikes it in the frame that ends at 20 ms and
  keeps it as target. At 420 ms the scout has died (its health is 0 and the death hook
  has run) and \<open>removeEnemy\<close> releases it, where \<open>resetEnemy\<close> gives it full health and sets
  \<open>isAlive\<close> again. At 1020 ms, with no enemy on the map, the tower's countdown has run
  out, \<open>findTarget\<close> finds the kept target alive and in reach at the path start, and the
  strike takes 2 health from the pooled scout and opens its invulnerability window. The
  next \<open>spawnEnemy\<close> yields scout 9 with health 18 of 20 and \<open>invulnerable\<close> set: neither
  \<open>get\<close> nor \<open>setPath\<close> resets them.
\<close>

theorem respawned_scout_is_hurt:
  "(case spawnEnemy (Scout 0 0) game_waypoints (\<lambda>r. Scout 0 0, 10, scout_pool, []) of
      (r, h1, f1, p1, es1) \<Rightarrow>
        (case MagicTower_update 20 20 es1 (h1, MagicTower_new 30 270) of
           ((h2, m2), strike1) \<Rightarrow>
             (case MagicTower_frames es1 [100, 100, 100, 100] 20 (h2, m2) of
                (h3, m3) \<Rightarrow>
                  (case removeEnemy (resetEnemy game_waypoints EnemyManager_spawnPoint) r
                          (h3(r := LivingEntity_onDeath ((h3 r)\<lparr>health := 0\<rparr>)), p1, es1) of
                     (h4, p4, es4) \<Rightarrow>
                       (case MagicTower_update 100 1020 es4
                               (MagicTower_frames es4 [100, 100, 100, 100, 100] 420 (h4, m3)) of
                          ((h5, m5), strike2) \<Rightarrow>
                            (case spawnEnemy (Scout 0 0) game_waypoints (h5, f1, p4, es4) of
                               (r', h6, f6, p6, es6) \<Rightarrow>
                                 r = 9 \<and> strike1 = Some [9] \<and> target m3 = Some 9
                                 \<and> health (h4 9) = 20 \<and> isAlive (h4 9)
                                 \<and> \<not> invulnerable (h4 9)
                                 \<and> 9 \<in> set (pool p4) \<and> es4 = []
                                 \<and> strike2 = Some [9]
                                 \<and> r' = 9 \<and> es6 = [9]
                                 \<and> health (h6 9) = 18 \<and> maxHealth (h6 9) = 20
                                 \<and> invulnerable (h6 9) \<and> position (h6 9) = (- 30, 210)))))))"
  unfolding first_spawn
  by (simp add: MagicTower_update_def MagicTower_new_def findTarget_def targetValid_def
      performChainLightning_def findNextChainTarget_def attackEnemy_def
      scout_fields takeDamage_fields distanceTo_le closer_def Let_def
      applyStatusEffect_def onStatusEffectApplied_def resisted_def removeStatusEffect_def
      removeEnemy_def ObjectPool_release_def resetEnemy_def game_waypoints_def
      EnemyManager_spawnPoint_def spawnEnemy_def ObjectPool_get_def setPath_def
      takeDamage_def onDamage_def LivingEntity_onDeath_def enemy_ctor_defs
      numeral_2_eq_2 split: prod.splits)

subsection \<open>Placing towers\<close>







subsection \<open>Chain lightning\<close>

lemma chain_scan_result:
  assumes "chain_scan h cr cur hit es acc = Some (r, d)"
  shows "(acc = Some (r, d)
          \<or> (r \<in> set es \<and> eligible h cr cur hit r
              \<and> d = distanceTo (position (h cur)) (position (h r))))
         \<and> (\<forall>r' \<in> set es. eligible h cr cur hit r'
               \<longrightarrow> d \<le> distanceTo (position (h cur)) (position (h r')))
         \<and> (\<forall>c. acc = Some c \<longrightarrow> d \<le> snd c)"
  using assms
proof (induction es arbitrary: acc)
  case Nil
  then show ?case by simp
next
  case (Cons e es)
  let ?d = "distanceTo (position (h cur)) (position (h e))"
  show ?case
  proof (cases "\<not> isAlive (h e) \<or> e \<in> hit")
    case True
    with Cons.prems have "chain_scan h cr cur hit es acc = Some (r, d)" by simp
    from Cons.IH [OF this] True show ?thesis by (auto simp: eligible_def)
  next
    case False
    show ?thesis
    proof (cases "?d \<le> cr \<and> closer ?d acc")
      case True
      with False Cons.prems have "chain_scan h cr cur hit es (Some (e, ?d)) = Some (r, d)"
        by (simp add: Let_def)
      from Cons.IH [OF this] True False show ?thesis
        by (auto simp: eligible_def closer_def split: option.splits)
    next
      case no: False
      with False Cons.prems have "chain_scan h cr cur hit es acc = Some (r, d)"
        by (simp add: Let_def)
      from Cons.IH [OF this] no False show ?thesis
        by (auto simp: eligible_def closer_def split: option.splits)
    qed
  qed
qed

lemma chain_scan_keeps:
  "acc \<noteq> None \<Longrightarrow> chain_scan h cr cur hit es acc \<noteq> None"
  by (induction es arbitrary: acc) (simp_all add: Let_def)

lemma chain_scan_finds:
  assumes "\<exists>r \<in> set es. eligible h cr cur hit r"
  shows "chain_scan h cr cur hit es acc \<noteq> None"
  using assms
proof (induction es arbitrary: acc)
  case Nil
  then show ?case by simp
next
  case (Cons e es)
  show ?case
  proof (cases "eligible h cr cur hit e")
    case True
    then show ?thesis
      using chain_scan_keeps [of "Some (e, distanceTo (position (h cur)) (position (h e)))"]
        chain_scan_keeps [of acc h cr cur hit es]
      by (cases acc) (auto simp: eligible_def closer_def Let_def)
  next
    case False
    with Cons.prems have "\<exists>r \<in> set es. eligible h cr cur hit r" by auto
    from Cons.IH [OF this] show ?thesis by (simp add: Let_def)
  qed
qed

lemma chain_scan_cong:
  assumes "\<forall>r. isAlive (h' r) = isAlive (h r) \<and> position (h' r) = position (h r)"
  shows "chain_scan h' cr cur hit es acc = chain_scan h cr cur hit es acc"
  using assms by (induction es arbitrary: acc) (simp_all add: Let_def)

lemma findNextChainTarget_Some:
  assumes "findNextChainTarget h cr es cur hit = Some r"
  shows "r \<in> set es \<and> eligible h cr cur hit r
    \<and> (\<forall>r' \<in> set es. eligible h cr cur hit r'
          \<longrightarrow> distanceTo (position (h cur)) (position (h r))
              \<le> distanceTo (position (h cur)) (position (h r')))"
proof -
  from assms obtain d where "chain_scan h cr cur hit es None = Some (r, d)"
    by (auto simp: findNextChainTarget_def)
  from chain_scan_result [OF this] show ?thesis by auto
qed

lemma findNextChainTarget_None:
  assumes "findNextChainTarget h cr es cur hit = None"
  shows "\<forall>r \<in> set es. \<not> eligible h cr cur hit r"
  using assms chain_scan_finds [of es h cr cur hit None]
  by (auto simp: findNextChainTarget_def)

lemma attackEnemy_frame:
  "isAlive (attackEnemy dmg now e h r) = isAlive (h r)
   \<and> position (attackEnemy dmg now e h r) = position (h r)"
  by (simp add: attackEnemy_def takeDamage_def onDamage_def)

lemma attackEnemy_alive:
  "isAlive (h e) \<Longrightarrow> attackEnemy dmg now e h = h(e := snd (takeDamage dmg ''normal'' now (h e)))"
  by (simp add: attackEnemy_def)


text \<open>
  The loop of the chain, for any number \<open>n\<close> of hops that are left: when all live enemies
  are within chain radius of each other and at least \<open>n\<close> of them have not been hit, the
  loop makes exactly \<open>n\<close> hops, each to a nearest live enemy not hit before, and every
  enemy it adds receives one \<open>takeDamage\<close> call.
\<close>

lemma chain_loop_inv:
  assumes same: "\<forall>r. isAlive (h r) = isAlive (h0 r) \<and> position (h r) = position (h0 r)"
    and pw: "\<forall>a \<in> set es. \<forall>b \<in> set es. isAlive (h0 a) \<and> isAlive (h0 b) \<longrightarrow>
               distanceTo (position (h0 a)) (position (h0 b)) \<le> cr"
    and hit: "hit = set cp"
    and dist: "distinct cp"
    and ne: "cp \<noteq> []"
    and cur: "last cp = cur"
    and sub: "set cp \<subseteq> {r \<in> set es. isAlive (h0 r)}"
    and enough: "length cp + n \<le> card {r \<in> set es. isAlive (h0 r)}"
    and res: "chain_loop dmg cr now es n cur hit cp h = (h', cp')"
  shows "length cp' = length cp + n \<and> distinct cp'
    \<and> set cp' \<subseteq> {r \<in> set es. isAlive (h0 r)}
    \<and> take (length cp) cp' = cp
    \<and> (\<forall>k. length cp \<le> Suc k \<and> Suc k < length cp' \<longrightarrow> nearest_unhit h0 es cp' k)
    \<and> (\<forall>r. h' r = (if r \<in> set cp' \<and> r \<notin> set cp
                     then snd (takeDamage dmg ''normal'' now (h r)) else h r))"
  using same hit dist ne cur sub enough res
proof (induction n arbitrary: cur hit cp h)
  case 0
  then show ?case by auto
next
  case (Suc n)
  let ?S = "{r \<in> set es. isAlive (h0 r)}"
  have fin: "finite ?S" by simp
  have curS: "cur \<in> ?S"
    using Suc.prems(4,5,6) last_in_set by blast
  have "\<not> ?S \<subseteq> set cp"
  proof
    assume "?S \<subseteq> set cp"
    then have "card ?S \<le> card (set cp)" by (intro card_mono) simp_all
    also have "\<dots> = length cp" using Suc.prems(3) by (simp add: distinct_card)
    finally show False using Suc.prems(7) by simp
  qed
  then obtain x where x: "x \<in> ?S" "x \<notin> set cp" by blast
  have "eligible h cr cur hit x"
    using x curS Suc.prems(1,2) pw by (auto simp: eligible_def)
  with x have "\<exists>r \<in> set es. eligible h cr cur hit r" by auto
  then obtain nxt where nxt: "findNextChainTarget h cr es cur hit = Some nxt"
    using findNextChainTarget_None [of h cr es cur hit] by (cases "findNextChainTarget h cr es cur hit") auto
  from findNextChainTarget_Some [OF nxt]
  have nxt_es: "nxt \<in> set es" and nxt_el: "eligible h cr cur hit nxt"
    and nxt_near: "\<forall>r' \<in> set es. eligible h cr cur hit r'
          \<longrightarrow> distanceTo (position (h cur)) (position (h nxt))
              \<le> distanceTo (position (h cur)) (position (h r'))"
    by auto
  have nxt_alive: "isAlive (h nxt)" and nxt_new: "nxt \<notin> set cp"
    using nxt_el Suc.prems(2) by (auto simp: eligible_def)
  have nxtS: "nxt \<in> ?S" using nxt_es nxt_alive Suc.prems(1) by simp
  let ?h1 = "attackEnemy dmg now nxt h"
  have h1: "?h1 = h(nxt := snd (takeDamage dmg ''normal'' now (h nxt)))"
    using nxt_alive by (rule attackEnemy_alive)
  have same1: "\<forall>r. isAlive (?h1 r) = isAlive (h0 r) \<and> position (?h1 r) = position (h0 r)"
    using Suc.prems(1) attackEnemy_frame by simp
  have res1: "chain_loop dmg cr now es n nxt (insert nxt hit) (cp @ [nxt]) ?h1 = (h', cp')"
    using Suc.prems(8) nxt by simp
  have IH: "length cp' = length (cp @ [nxt]) + n \<and> distinct cp'
    \<and> set cp' \<subseteq> ?S
    \<and> take (length (cp @ [nxt])) cp' = cp @ [nxt]
    \<and> (\<forall>k. length (cp @ [nxt]) \<le> Suc k \<and> Suc k < length cp' \<longrightarrow> nearest_unhit h0 es cp' k)
    \<and> (\<forall>r. h' r = (if r \<in> set cp' \<and> r \<notin> set (cp @ [nxt])
                     then snd (takeDamage dmg ''normal'' now (?h1 r)) else ?h1 r))"
  proof (rule Suc.IH [OF same1 _ _ _ _ _ _ res1])
    show "insert nxt hit = set (cp @ [nxt])" using Suc.prems(2) by simp
    show "distinct (cp @ [nxt])" using Suc.prems(3) nxt_new by simp
    show "cp @ [nxt] \<noteq> []" by simp
    show "last (cp @ [nxt]) = nxt" by simp
    show "set (cp @ [nxt]) \<subseteq> ?S" using Suc.prems(6) nxtS by simp
    show "length (cp @ [nxt]) + n \<le> card ?S" using Suc.prems(7) by simp
  qed
  have len: "length cp' = length cp + Suc n" using IH by simp
  have pre: "take (Suc (length cp)) cp' = cp @ [nxt]" using IH by simp
  have tk: "take (length cp) cp' = cp"
  proof -
    have "take (length cp) cp' = take (length cp) (take (Suc (length cp)) cp')"
      by (simp add: min_def)
    then show ?thesis using pre by simp
  qed
  have at_cur: "cp' ! (length cp - 1) = cur"
  proof -
    have "cp' ! (length cp - 1) = take (length cp) cp' ! (length cp - 1)"
      using Suc.prems(4) by simp
    also have "\<dots> = last cp" using tk Suc.prems(4) by (simp add: last_conv_nth)
    finally show ?thesis using Suc.prems(5) by simp
  qed
  have at_nxt: "cp' ! length cp = nxt"
  proof -
    have "cp' ! length cp = take (Suc (length cp)) cp' ! length cp" by simp
    then show ?thesis using pre by simp
  qed
  have hop0: "nearest_unhit h0 es cp' (length cp - 1)"
    unfolding nearest_unhit_def
  proof (intro ballI impI)
    fix r assume r: "r \<in> set es"
      and a: "isAlive (h0 r) \<and> r \<notin> set (take (Suc (length cp - 1)) cp')"
    have sk: "Suc (length cp - 1) = length cp" using Suc.prems(4) by simp
    from a sk tk have rp: "r \<notin> set cp" by simp
    have "eligible h cr cur hit r"
      using r a rp curS Suc.prems(1,2) pw by (auto simp: eligible_def)
    with nxt_near r have "distanceTo (position (h cur)) (position (h nxt))
              \<le> distanceTo (position (h cur)) (position (h r))" by blast
    then show "distanceTo (position (h0 (cp' ! (length cp - 1))))
          (position (h0 (cp' ! Suc (length cp - 1))))
        \<le> distanceTo (position (h0 (cp' ! (length cp - 1)))) (position (h0 r))"
      using sk at_cur at_nxt Suc.prems(1) by simp
  qed
  have hops: "\<forall>k. length cp \<le> Suc k \<and> Suc k < length cp' \<longrightarrow> nearest_unhit h0 es cp' k"
  proof (intro allI impI)
    fix k assume k: "length cp \<le> Suc k \<and> Suc k < length cp'"
    show "nearest_unhit h0 es cp' k"
    proof (cases "Suc k = length cp")
      case True
      then have "k = length cp - 1" by simp
      with hop0 show ?thesis by simp
    next
      case False
      with k have "length (cp @ [nxt]) \<le> Suc k \<and> Suc k < length cp'" by simp
      with IH show ?thesis by blast
    qed
  qed
  have nxt_in: "nxt \<in> set cp'"
    using pre by (metis in_set_conv_decomp in_set_takeD)
  have store: "\<forall>r. h' r = (if r \<in> set cp' \<and> r \<notin> set cp
                     then snd (takeDamage dmg ''normal'' now (h r)) else h r)"
  proof
    fix r
    show "h' r = (if r \<in> set cp' \<and> r \<notin> set cp
                     then snd (takeDamage dmg ''normal'' now (h r)) else h r)"
    proof (cases "r = nxt")
      case True
      then show ?thesis using IH h1 nxt_in nxt_new by simp
    next
      case False
      then show ?thesis using IH h1 by simp
    qed
  qed
  from len IH tk hops store show ?case by simp
qed


text \<open>
  C4, as amended. For a magic tower with \<open>chainCount = 3\<close> and a live first target in the
  manager's list, when the live enemies of that list are five or more and are all pairwise
  within chain radius of each other, one strike hits exactly three distinct enemies, the
  first target first; each hop
  goes to a nearest live enemy not hit before, measured from the enemy hit before it; every
  enemy hit receives exactly one \<open>takeDamage\<close> call and no other enemy changes. An enemy
  hit that is neither invulnerable nor dead loses the tower's damage (its health clamped at
  0); one that is invulnerable or dead counts as a hop and is left as it was.
\<close>

theorem chain_lightning_three_targets:
  assumes cc: "chainCount m = 3"
    and first: "firstTarget \<in> set enemies \<and> isAlive (h firstTarget)"
    and five: "5 \<le> card {r \<in> set enemies. isAlive (h r)}"
    and pw: "\<forall>a \<in> set enemies. \<forall>b \<in> set enemies. isAlive (h a) \<and> isAlive (h b) \<longrightarrow>
               distanceTo (position (h a)) (position (h b)) \<le> chainRange m"
  shows "case performChainLightning m now enemies firstTarget h of
     (h', hits) \<Rightarrow>
       length hits = 3 \<and> distinct hits \<and> hits ! 0 = firstTarget
       \<and> set hits \<subseteq> {r \<in> set enemies. isAlive (h r)}
       \<and> nearest_unhit h enemies hits 0 \<and> nearest_unhit h enemies hits 1
       \<and> (\<forall>r. h' r = (if r \<in> set hits
                        then snd (takeDamage (stats_damage m) ''normal'' now (h r)) else h r))
       \<and> (\<forall>r \<in> set hits. \<not> invulnerable (h r) \<and> \<not> isDead (h r) \<longrightarrow>
             health (h' r) = max 0 (health (h r) - stats_damage m))
       \<and> (\<forall>r \<in> set hits. invulnerable (h r) \<or> isDead (h r) \<longrightarrow> h' r = h r)"
proof -
  let ?dmg = "stats_damage m"
  let ?h1 = "attackEnemy ?dmg now firstTarget h"
  obtain h' hits where res: "performChainLightning m now enemies firstTarget h = (h', hits)"
    by (cases "performChainLightning m now enemies firstTarget h")
  then have loop: "chain_loop ?dmg (chainRange m) now enemies 2 firstTarget {firstTarget}
      [firstTarget] ?h1 = (h', hits)"
    using cc by (simp add: performChainLightning_def)
  have h1: "?h1 = h(firstTarget := snd (takeDamage ?dmg ''normal'' now (h firstTarget)))"
    using first by (simp add: attackEnemy_alive)
  have same: "\<forall>r. isAlive (?h1 r) = isAlive (h r) \<and> position (?h1 r) = position (h r)"
    using attackEnemy_frame by simp
  have inv: "length hits = length [firstTarget] + 2 \<and> distinct hits
    \<and> set hits \<subseteq> {r \<in> set enemies. isAlive (h r)}
    \<and> take (length [firstTarget]) hits = [firstTarget]
    \<and> (\<forall>k. length [firstTarget] \<le> Suc k \<and> Suc k < length hits \<longrightarrow> nearest_unhit h enemies hits k)
    \<and> (\<forall>r. h' r = (if r \<in> set hits \<and> r \<notin> set [firstTarget]
                     then snd (takeDamage ?dmg ''normal'' now (?h1 r)) else ?h1 r))"
  proof (rule chain_loop_inv [OF same pw _ _ _ _ _ _ loop])
    show "{firstTarget} = set [firstTarget]" by simp
    show "distinct [firstTarget]" by simp
    show "[firstTarget] \<noteq> []" by simp
    show "last [firstTarget] = firstTarget" by simp
    show "set [firstTarget] \<subseteq> {r \<in> set enemies. isAlive (h r)}" using first by simp
    show "length [firstTarget] + 2 \<le> card {r \<in> set enemies. isAlive (h r)}" using five by simp
  qed
  then have len: "length hits = 3" by simp
  have hd: "hits ! 0 = firstTarget"
  proof -
    have t1: "take (Suc 0) hits = [firstTarget]" using inv by simp
    have "take (Suc 0) hits ! 0 = hits ! 0" by (rule nth_take) simp
    with t1 show ?thesis by simp
  qed
  have first_in: "firstTarget \<in> set hits"
    using hd len by (metis nth_mem zero_less_numeral)
  have store: "\<forall>r. h' r = (if r \<in> set hits
                        then snd (takeDamage ?dmg ''normal'' now (h r)) else h r)"
  proof
    fix r
    show "h' r = (if r \<in> set hits then snd (takeDamage ?dmg ''normal'' now (h r)) else h r)"
      using inv h1 first_in by (cases "r = firstTarget") simp_all
  qed
  have hop0: "nearest_unhit h enemies hits 0" and hop1: "nearest_unhit h enemies hits 1"
    using inv len by simp_all
  have dmg: "\<forall>r \<in> set hits. \<not> invulnerable (h r) \<and> \<not> isDead (h r) \<longrightarrow>
             health (h' r) = max 0 (health (h r) - ?dmg)"
    using store by (simp add: takeDamage_def onDamage_def)
  have skip: "\<forall>r \<in> set hits. invulnerable (h r) \<or> isDead (h r) \<longrightarrow> h' r = h r"
    using store by (auto simp: takeDamage_def)
  from len inv hd hop0 hop1 store dmg skip show ?thesis
    by (simp add: res)
qed

lemma distance_horizontal: "distance x1 y x2 y = \<bar>x2 - x1\<bar>"
  by (simp add: distance_def)

lemma distanceTo_horizontal: "distanceTo (x1, y) (x2, y) = \<bar>x2 - x1\<bar>"
  by (simp add: distanceTo_def distance_horizontal)

lemma shielded_fields:
  "isAlive (scout_line_shielded r)" "position (scout_line_shielded r) = (10 * real r, 0)"
  by (simp_all add: scout_line_shielded_def scout_line_def scout_fields takeDamage_fields)

lemma line_alive: "{r \<in> set [0, 1, 2, 3, 4::nat]. isAlive (scout_line r)} = {0, 1, 2, 3, 4}"
  by (auto simp: scout_line_def scout_fields)

theorem chain_lightning_witness:
  "chainCount (MagicTower_new 0 0) = 3
   \<and> isAlive (scout_line 0)
   \<and> 5 \<le> card {r \<in> set [0, 1, 2, 3, 4]. isAlive (scout_line r)}
   \<and> length (snd (performChainLightning (MagicTower_new 0 0) 100 [0, 1, 2, 3, 4] 0 scout_line)) = 3
   \<and> distinct (snd (performChainLightning (MagicTower_new 0 0) 100 [0, 1, 2, 3, 4] 0 scout_line))
   \<and> snd (performChainLightning (MagicTower_new 0 0) 100 [0, 1, 2, 3, 4] 0 scout_line) ! 0 = 0"
proof -
  have cc: "chainCount (MagicTower_new 0 0) = 3" by (simp add: MagicTower_new_def)
  have first: "0 \<in> set [0, 1, 2, 3, 4::nat] \<and> isAlive (scout_line 0)"
    by (simp add: scout_line_def scout_fields)
  have five: "5 \<le> card {r \<in> set [0, 1, 2, 3, 4]. isAlive (scout_line r)}"
    unfolding line_alive by simp
  have pw: "\<forall>a \<in> set [0, 1, 2, 3, 4]. \<forall>b \<in> set [0, 1, 2, 3, 4].
      isAlive (scout_line a) \<and> isAlive (scout_line b) \<longrightarrow>
        distanceTo (position (scout_line a)) (position (scout_line b))
          \<le> chainRange (MagicTower_new 0 0)"
    by (simp add: scout_line_def scout_fields distanceTo_horizontal MagicTower_new_def)
  obtain h' hits where
    res: "performChainLightning (MagicTower_new 0 0) 100 [0, 1, 2, 3, 4] 0 scout_line = (h', hits)"
    by (cases "performChainLightning (MagicTower_new 0 0) 100 [0, 1, 2, 3, 4] 0 scout_line")
  have "length hits = 3 \<and> distinct hits \<and> hits ! 0 = 0"
    using chain_lightning_three_targets [OF cc first five pw, of 100] unfolding res by simp
  with cc first five show ?thesis unfolding res by simp
qed

text \<open>
  The live enemies that are pairwise within chain radius have to be all the live enemies
  of the list: the chain goes to the nearest enemy whether or not it belongs to a cluster,
  and from an outsider the cluster can be out of reach. Here the chain started at enemy 0
  hops to the outsider 5 and ends after two hits.
\<close>

lemma cluster_fields:
  "isAlive (scout_cluster r)"
  "position (scout_cluster r) = (if r = 0 then 0 else if r = 5 then - 40 else 54 + real r, 0)"
  by (simp_all add: scout_cluster_def scout_fields)

lemma chain_leaves_cluster:
  "snd (performChainLightning (MagicTower_new 0 0) 100 [0, 1, 2, 3, 4, 5] 0 scout_cluster)
     = [0, 5]"
  by (simp add: performChainLightning_def MagicTower_new_def findNextChainTarget_def
      attackEnemy_def cluster_fields takeDamage_fields distanceTo_horizontal closer_def Let_def
      numeral_2_eq_2)

text \<open>
  C4 as stated fails in the number of enemies damaged: in a line of five live scouts of
  which the second is inside its invulnerability window, the strike goes through enemies
  0, 1 and 2 and stops there, but takes health from enemies 0 and 2 only.
\<close>

lemma shielded_chain_path:
  "snd (performChainLightning (MagicTower_new 0 0) 100 [0, 1, 2, 3, 4] 0 scout_line_shielded)
     = [0, 1, 2]"
  by (simp add: performChainLightning_def MagicTower_new_def findNextChainTarget_def
      attackEnemy_def shielded_fields takeDamage_fields distanceTo_horizontal closer_def Let_def
      numeral_2_eq_2)

lemma shielded_chain_store:
  "fst (performChainLightning (MagicTower_new 0 0) 100 [0, 1, 2, 3, 4] 0 scout_line_shielded)
     = scout_line_shielded
         (0 := snd (takeDamage 2 ''normal'' 100 (scout_line_shielded 0)),
          1 := snd (takeDamage 2 ''normal'' 100 (scout_line_shielded 1)),
          2 := snd (takeDamage 2 ''normal'' 100 (scout_line_shielded 2)))"
  by (simp add: performChainLightning_def MagicTower_new_def findNextChainTarget_def
      attackEnemy_def shielded_fields takeDamage_fields distanceTo_horizontal closer_def Let_def
      numeral_2_eq_2)

theorem chain_skips_invulnerable:
  "isAlive (scout_line_shielded 1) \<and> invulnerable (scout_line_shielded 1)
   \<and> snd (performChainLightning (MagicTower_new 0 0) 100 [0, 1, 2, 3, 4] 0 scout_line_shielded)
       = [0, 1, 2]
   \<and> health (fst (performChainLightning (MagicTower_new 0 0) 100 [0, 1, 2, 3, 4] 0
        scout_line_shielded) 0) = health (scout_line_shielded 0) - 2
   \<and> health (fst (performChainLightning (MagicTower_new 0 0) 100 [0, 1, 2, 3, 4] 0
        scout_line_shielded) 1) = health (scout_line_shielded 1)
   \<and> health (fst (performChainLightning (MagicTower_new 0 0) 100 [0, 1, 2, 3, 4] 0
        scout_line_shielded) 2) = health (scout_line_shielded 2) - 2
   \<and> health (fst (performChainLightning (MagicTower_new 0 0) 100 [0, 1, 2, 3, 4] 0
        scout_line_shielded) 3) = health (scout_line_shielded 3)
   \<and> health (fst (performChainLightning (MagicTower_new 0 0) 100 [0, 1, 2, 3, 4] 0
        scout_line_shielded) 4) = health (scout_line_shielded 4)"
  unfolding shielded_chain_path shielded_chain_store
  by (simp add: scout_line_shielded_def scout_line_def takeDamage_def onDamage_def
      enemy_ctor_defs)

subsection \<open>Attack cooldown\<close>

text \<open>
  Archer and cannon towers: \<open>Tower.update\<close> assigns \<open>lastAttackTime\<close> only in a call in which
  \<open>now - lastAttackTime \<ge> attackCooldown\<close> held, and their upgrades keep \<open>attackCooldown\<close>
  equal to \<open>1000 / attackSpeed\<close>. The magic tower: a strike happens only when the countdown
  has run out, and sets it to \<open>1000 / attackSpeed\<close>.
\<close>

lemma findTarget_timing:
  "lastAttackTime (findTarget h enemies t) = lastAttackTime t
   \<and> attackCooldown (findTarget h enemies t) = attackCooldown t
   \<and> stats_attackSpeed (findTarget h enemies t) = stats_attackSpeed t"
  by (simp add: findTarget_def)

lemma Tower_update_gate:
  "(snd (Tower_update deltaTime now h enemies t) \<longrightarrow>
      attackCooldown t \<le> now - lastAttackTime t
      \<and> lastAttackTime (fst (Tower_update deltaTime now h enemies t)) = now)
   \<and> (\<not> snd (Tower_update deltaTime now h enemies t) \<longrightarrow>
      lastAttackTime (fst (Tower_update deltaTime now h enemies t)) = lastAttackTime t)
   \<and> attackCooldown (fst (Tower_update deltaTime now h enemies t)) = attackCooldown t
   \<and> stats_attackSpeed (fst (Tower_update deltaTime now h enemies t)) = stats_attackSpeed t"
  by (simp add: Tower_update_def Let_def findTarget_timing)

lemma upgrade_keeps_cooldown_in_step:
  "attackCooldown a = 1000 / stats_attackSpeed a \<Longrightarrow>
     attackCooldown (snd (ArcherTower_upgrade a))
       = 1000 / stats_attackSpeed (snd (ArcherTower_upgrade a))"
  "attackCooldown c = 1000 / stats_attackSpeed c \<Longrightarrow>
     attackCooldown (snd (CannonTower_upgrade c))
       = 1000 / stats_attackSpeed (snd (CannonTower_upgrade c))"
  by (simp_all add: ArcherTower_upgrade_def CannonTower_upgrade_def upgrade_costs_def
      upgrade_stats_def ArcherTower_upgradeSpecialAbilities_def
      CannonTower_upgradeSpecialAbilities_def Let_def)

lemma MagicTower_update_gate:
  assumes "MagicTower_update deltaTime now enemies (h, m) = ((h', m'), Some chainPath)"
  shows "attackCooldown m - deltaTime \<le> 0
    \<and> attackCooldown m' = 1000 / stats_attackSpeed m'
    \<and> stats_attackSpeed m' = stats_attackSpeed m"
  using assms
  by (auto simp: MagicTower_update_def Let_def findTarget_timing
      split: if_splits prod.splits option.splits)

lemma MagicTower_update_idle:
  assumes "MagicTower_update deltaTime now enemies (h, m) = ((h', m'), None)"
    and "canAttack m"
  shows "attackCooldown m' = attackCooldown m - deltaTime
    \<and> stats_attackSpeed m' = stats_attackSpeed m"
  using assms
  by (auto simp: MagicTower_update_def Let_def findTarget_timing
      split: if_splits prod.splits option.splits)

lemma magic_level3_cooldown:
  "level m = 2 \<Longrightarrow> maxLevel m = 3 \<Longrightarrow>
     attackCooldown (snd (MagicTower_upgrade m)) = 1000 / (stats_attackSpeed m * (14 / 10))
     \<and> stats_attackSpeed (snd (MagicTower_upgrade m)) = 15 / 10"
  by (simp add: MagicTower_upgrade_def upgrade_costs_def upgrade_stats_def
      MagicTower_upgradeSpecialAbilities_def upgradeMultiplier_def Let_def)

text \<open>
  C5. The claim: any two consecutive attacks of a tower are at least \<open>1000 / attackSpeed\<close>
  milliseconds apart, with the attack speed at the second attack, also for the magic
  tower's countdown. The code at a magic tower next to a scout: it strikes in the frame
  that ends at 20 ms; the player then buys both upgrades; the base class's \<open>upgrade\<close>
  overwrites the countdown with \<open>1000 / (1.24 * 1.4)\<close>, about 576 ms, and the level-3 special
  abilities then set the attack speed to 1.5 without touching the countdown. After six
  frames of 100 ms the tower strikes again, at 620 ms: 600 ms after the first strike, where
  \<open>1000 / 1.5\<close> is more than 666 ms.
\<close>

theorem magic_tower_upgrade_shortens_cooldown:
  "MagicTower_run [0]
      [Frame 20, Upgrade, Upgrade,
       Frame 100, Frame 100, Frame 100, Frame 100, Frame 100, Frame 100]
      0 (\<lambda>r. Scout 50 0, MagicTower_new 0 0)
     = [(20, 1), (620, 15 / 10)]
   \<and> (620 - 20 :: real) < 1000 / (15 / 10)"
  by (simp add: MagicTower_update_def MagicTower_upgrade_def upgrade_stats_def upgrade_costs_def
      MagicTower_upgradeSpecialAbilities_def upgradeMultiplier_def Math_round_def
      MagicTower_new_def findTarget_def targetValid_def
      performChainLightning_def findNextChainTarget_def attackEnemy_def
      scout_fields takeDamage_fields distanceTo_horizontal closer_def Let_def
      applyStatusEffect_def onStatusEffectApplied_def resisted_def removeStatusEffect_def
      numeral_2_eq_2 numeral_3_eq_3 split: prod.splits)

end
